theory Spec2Isabelle
  imports Complex_Main
begin

section \<open>Values, exceptions and the outside world\<close>

text \<open>
  The program is \<^verbatim>\<open>src/main.py\<close>: four functions that talk to the Threads API through
  \<^verbatim>\<open>requests.get\<close>, log through \<^verbatim>\<open>logger\<close> and pace themselves by \<^verbatim>\<open>time.sleep\<close>.

  A parsed JSON body is a Python value. Python \<^verbatim>\<open>None\<close> is \<open>JNull\<close>, a Python
  \<^verbatim>\<open>int\<close> is an unbounded \<open>int\<close>, and a Python \<^verbatim>\<open>float\<close> is modelled by the real
  number it denotes: rounding to a double, infinities and NaN are outside the model.
  A \<^verbatim>\<open>dict\<close> is the association list of its items in insertion order (keys
  distinct, as \<^verbatim>\<open>json\<close> builds it).
\<close>

datatype json =
    JNull
  | JBool bool
  | JInt int
  | JFloat real
  | JStr string
  | JList "json list"
  | JObj "(string \<times> json) list"

text \<open>
  The exceptions that can leave a function of the program. \<open>ThreadsApiError\<close> is the
  program's own class and carries its message; the others are Python's built-in ones.
\<close>

datatype py_exn =
    ThreadsApiError string
  | UnboundLocalError
  | AttributeError
  | KeyError
  | IndexError
  | TypeError
  | OverflowError

datatype level = INFO | WARNING | ERROR

text \<open>
  What a run does to the outside world, in order: a log record, an HTTP GET (URL and query
  parameters) and a call of \<^verbatim>\<open>time.sleep\<close>.
\<close>

datatype event =
    Log level string
  | Get string "(string \<times> string) list"
  | Sleep real

text \<open>
  A \<^verbatim>\<open>requests.Response\<close>: its status code, its body as \<^verbatim>\<open>response.json()\<close> reads
  it (\<open>None\<close> when the body is not JSON) and \<^verbatim>\<open>str(e)\<close> of the
  \<^verbatim>\<open>RequestException\<close> that \<^verbatim>\<open>raise_for_status()\<close> or \<^verbatim>\<open>json()\<close> raises on it.
\<close>

record response =
  status_code :: nat
  json_body :: "json option"
  exc_text :: string

text \<open>
  \<open>NoResponse\<close>: \<^verbatim>\<open>requests.get\<close> itself raised a \<^verbatim>\<open>RequestException\<close>
  (connection refused, DNS failure, timeout), so no response object exists.
\<close>

datatype http_outcome = NoResponse | Response response

text \<open>
  The environment of a run. \<open>http_get env k url params\<close> is the outcome of the
  \<open>k\<close>-th GET of the run (counted from 0) when it asks for \<open>url\<close> with \<open>params\<close>;
  any sequence of outcomes is some \<open>http_get\<close>. \<open>today\<close> is the proleptic Gregorian
  ordinal of \<^verbatim>\<open>datetime.now()\<close> (both reads of the clock in \<^verbatim>\<open>get_user_posts\<close> are taken
  to fall on the same day) and \<open>strftime_ymd\<close> formats an ordinal as
  \<^verbatim>\<open>%Y-%m-%d\<close>. \<open>repr_str\<close>, \<open>repr_float\<close> and \<open>format_2f\<close> are Python's
  \<^verbatim>\<open>repr\<close> of a \<^verbatim>\<open>str\<close>, of a \<^verbatim>\<open>float\<close>, and the format \<^verbatim>\<open>:.2f\<close>; they only
  ever reach log messages and URLs.
\<close>

record env =
  http_get :: "nat \<Rightarrow> string \<Rightarrow> (string \<times> string) list \<Rightarrow> http_outcome"
  today :: int
  strftime_ymd :: "int \<Rightarrow> string"
  repr_str :: "string \<Rightarrow> string"
  repr_float :: "real \<Rightarrow> string"
  format_2f :: "real \<Rightarrow> string"

text \<open>The state a run threads through: the number of GETs issued and the events so far.\<close>

record state =
  calls :: nat
  trace :: "event list"

definition logger_info :: "string \<Rightarrow> state \<Rightarrow> state" where
  "logger_info msg s = s\<lparr>trace := trace s @ [Log INFO msg]\<rparr>"

definition logger_warning :: "string \<Rightarrow> state \<Rightarrow> state" where
  "logger_warning msg s = s\<lparr>trace := trace s @ [Log WARNING msg]\<rparr>"

definition logger_error :: "string \<Rightarrow> state \<Rightarrow> state" where
  "logger_error msg s = s\<lparr>trace := trace s @ [Log ERROR msg]\<rparr>"

definition time_sleep :: "real \<Rightarrow> state \<Rightarrow> state" where
  "time_sleep d s = s\<lparr>trace := trace s @ [Sleep d]\<rparr>"

definition requests_get ::
  "env \<Rightarrow> string \<Rightarrow> (string \<times> string) list \<Rightarrow> state \<Rightarrow> http_outcome \<times> state" where
  "requests_get env url params s =
     (http_get env (calls s) url params,
      s\<lparr>calls := Suc (calls s), trace := trace s @ [Get url params]\<rparr>)"

section \<open>The Python operations the program uses\<close>

subsection \<open>Formatting\<close>

definition digit_char :: "nat \<Rightarrow> char" where
  "digit_char d = ''0123456789'' ! d"

text \<open>The decimal digits of a number \<open>n \<ge> 0\<close>, and \<^verbatim>\<open>str\<close> of an \<^verbatim>\<open>int\<close>.\<close>

function decimal :: "int \<Rightarrow> string" where
  "decimal n =
     (if n < 10 then [digit_char (nat n)] else decimal (n div 10) @ [digit_char (nat (n mod 10))])"
  by pat_completeness auto
termination
  by (relation "measure nat") auto

declare decimal.simps [simp del]

definition string_of_int :: "int \<Rightarrow> string" where
  "string_of_int i = (if i < 0 then CHR ''-'' # decimal (- i) else decimal i)"

definition string_of_nat :: "nat \<Rightarrow> string" where
  "string_of_nat n = decimal (int n)"

fun join_with :: "string \<Rightarrow> string list \<Rightarrow> string" where
  "join_with sep [] = []"
| "join_with sep [x] = x"
| "join_with sep (x # y # ys) = x @ sep @ join_with sep (y # ys)"

text \<open>\<^verbatim>\<open>repr(v)\<close>, which is how a value prints inside a list or a dict.\<close>

fun py_repr :: "env \<Rightarrow> json \<Rightarrow> string" where
  "py_repr env JNull = ''None''"
| "py_repr env (JBool b) = (if b then ''True'' else ''False'')"
| "py_repr env (JInt i) = string_of_int i"
| "py_repr env (JFloat x) = repr_float env x"
| "py_repr env (JStr s) = repr_str env s"
| "py_repr env (JList xs) = ''['' @ join_with '', '' (map (py_repr env) xs) @ '']''"
| "py_repr env (JObj kvs) =
     ''{'' @ join_with '', '' (map (\<lambda>kv. repr_str env (fst kv) @ '': '' @ py_repr env (snd kv)) kvs)
       @ ''}''"

text \<open>\<^verbatim>\<open>str(v)\<close>, which is what an f-string field \<^verbatim>\<open>{v}\<close> prints.\<close>

definition py_str :: "env \<Rightarrow> json \<Rightarrow> string" where
  "py_str env v = (case v of JStr s \<Rightarrow> s | _ \<Rightarrow> py_repr env v)"

text \<open>A name between apostrophes, as in \<^verbatim>\<open>f"user '{username}'"\<close>.\<close>

definition quoted :: "string \<Rightarrow> string" where
  "quoted s = [CHR 0x27] @ s @ [CHR 0x27]"

subsection \<open>Subscription, \<^verbatim>\<open>dict.get\<close>, truth, length, iteration, arithmetic\<close>

text \<open>\<^verbatim>\<open>v[k]\<close> for a string key \<open>k\<close>.\<close>

fun py_getitem_key :: "json \<Rightarrow> string \<Rightarrow> py_exn + json" where
  "py_getitem_key (JObj kvs) k = (case map_of kvs k of None \<Rightarrow> Inl KeyError | Some v \<Rightarrow> Inr v)"
| "py_getitem_key _ k = Inl TypeError"

text \<open>
  \<^verbatim>\<open>v[i]\<close> for an index \<open>i \<ge> 0\<close>. A dict built from JSON has string keys only, so an
  integer key is never found.
\<close>

fun py_getitem_index :: "json \<Rightarrow> nat \<Rightarrow> py_exn + json" where
  "py_getitem_index (JList xs) i = (if i < length xs then Inr (xs ! i) else Inl IndexError)"
| "py_getitem_index (JStr s) i = (if i < length s then Inr (JStr [s ! i]) else Inl IndexError)"
| "py_getitem_index (JObj kvs) i = Inl KeyError"
| "py_getitem_index _ i = Inl TypeError"

text \<open>\<^verbatim>\<open>v.get(k, d)\<close>: only a dict has the method.\<close>

fun py_get :: "json \<Rightarrow> string \<Rightarrow> json \<Rightarrow> py_exn + json" where
  "py_get (JObj kvs) k d = (case map_of kvs k of None \<Rightarrow> Inr d | Some v \<Rightarrow> Inr v)"
| "py_get _ k d = Inl AttributeError"

text \<open>The truth value of \<^verbatim>\<open>if v:\<close>.\<close>

fun py_truthy :: "json \<Rightarrow> bool" where
  "py_truthy JNull = False"
| "py_truthy (JBool b) = b"
| "py_truthy (JInt i) = (i \<noteq> 0)"
| "py_truthy (JFloat x) = (x \<noteq> 0)"
| "py_truthy (JStr s) = (s \<noteq> [])"
| "py_truthy (JList xs) = (xs \<noteq> [])"
| "py_truthy (JObj kvs) = (kvs \<noteq> [])"

fun py_len :: "json \<Rightarrow> py_exn + nat" where
  "py_len (JStr s) = Inr (length s)"
| "py_len (JList xs) = Inr (length xs)"
| "py_len (JObj kvs) = Inr (length kvs)"
| "py_len _ = Inl TypeError"

text \<open>
  The items \<^verbatim>\<open>for x in v\<close> visits: the elements of a list, the keys of a dict, the
  characters of a string.
\<close>

fun py_iter :: "json \<Rightarrow> py_exn + json list" where
  "py_iter (JList xs) = Inr xs"
| "py_iter (JObj kvs) = Inr (map (\<lambda>kv. JStr (fst kv)) kvs)"
| "py_iter (JStr s) = Inr (map (\<lambda>c. JStr [c]) s)"
| "py_iter _ = Inl TypeError"

text \<open>
  The running total \<^verbatim>\<open>total_views\<close> is a number: an \<^verbatim>\<open>int\<close> until a \<^verbatim>\<open>float\<close> is
  added. \<^verbatim>\<open>total + v\<close> is defined for numbers (a \<^verbatim>\<open>bool\<close> counts as 0 or 1) and raises
  \<^verbatim>\<open>TypeError\<close> for everything else.
\<close>

datatype py_num = PInt int | PFloat real

definition num_value :: "py_num \<Rightarrow> real" where
  "num_value t = (case t of PInt i \<Rightarrow> of_int i | PFloat x \<Rightarrow> x)"

fun py_add :: "py_num \<Rightarrow> json \<Rightarrow> py_exn + py_num" where
  "py_add (PInt a) (JInt i) = Inr (PInt (a + i))"
| "py_add (PInt a) (JBool b) = Inr (PInt (a + (if b then 1 else 0)))"
| "py_add (PInt a) (JFloat x) = Inr (PFloat (of_int a + x))"
| "py_add (PFloat a) (JInt i) = Inr (PFloat (a + of_int i))"
| "py_add (PFloat a) (JBool b) = Inr (PFloat (a + (if b then 1 else 0)))"
| "py_add (PFloat a) (JFloat x) = Inr (PFloat (a + x))"
| "py_add _ _ = Inl TypeError"

text \<open>\<^verbatim>\<open>total / n\<close> for a positive \<^verbatim>\<open>int\<close> \<open>n\<close>: true division, a \<^verbatim>\<open>float\<close>.\<close>

definition py_truediv :: "py_num \<Rightarrow> nat \<Rightarrow> real" where
  "py_truediv t n = num_value t / of_nat n"

section \<open>The program\<close>

text \<open>
  A function of the program takes the state and returns what it returned or raised
  (\<open>Inr\<close> the value, \<open>Inl\<close> the exception) with the state it left.
\<close>

type_synonym 'a outcome = "(py_exn + 'a) \<times> state"

definition is_ThreadsApiError :: "py_exn \<Rightarrow> bool" where
  "is_ThreadsApiError e = (case e of ThreadsApiError m \<Rightarrow> True | _ \<Rightarrow> False)"

definition bind_exn :: "py_exn + 'a \<Rightarrow> ('a \<Rightarrow> py_exn + 'b) \<Rightarrow> py_exn + 'b" where
  "bind_exn r f = (case r of Inl e \<Rightarrow> Inl e | Inr v \<Rightarrow> f v)"

subsection \<open>\<^verbatim>\<open>make_api_request\<close> (lines 15 to 44)\<close>

text \<open>
  \<^verbatim>\<open>raise_for_status()\<close> raises \<^verbatim>\<open>HTTPError\<close> for a status from 400 to 599 and for no
  other. \<^verbatim>\<open>response.json()\<close> on a body that is not JSON raises
  \<^verbatim>\<open>requests.exceptions.JSONDecodeError\<close>, which is both a \<^verbatim>\<open>RequestException\<close> and a
  \<^verbatim>\<open>ValueError\<close> (requests 2.27 and later; the Threads API is younger than that).
\<close>

definition raise_for_status_raises :: "response \<Rightarrow> bool" where
  "raise_for_status_raises r = (400 \<le> status_code r \<and> status_code r < 600)"

text \<open>
  Lines 29 to 34, with a response at hand: \<open>error_info\<close> stays \<^verbatim>\<open>{}\<close> unless the status
  is 400. At 400 a body that is not JSON is the \<^verbatim>\<open>ValueError\<close> that is passed over, and a
  JSON body that is not a dict has no \<^verbatim>\<open>get\<close>.
\<close>

definition error_info_of :: "response \<Rightarrow> py_exn + json" where
  "error_info_of r =
     (if status_code r = 400 then
        (case json_body r of
           None \<Rightarrow> Inr (JObj [])
         | Some j \<Rightarrow> py_get j ''error'' (JObj []))
      else Inr (JObj []))"

text \<open>Lines 36 to 44: one error record, then the \<^verbatim>\<open>ThreadsApiError\<close>.\<close>

definition report_failure :: "env \<Rightarrow> string \<Rightarrow> response \<Rightarrow> json \<Rightarrow> state \<Rightarrow> json outcome" where
  "report_failure env url r error_info s =
     (if py_truthy error_info then
        (case py_get error_info ''message'' (JStr (exc_text r)) of
           Inl e \<Rightarrow> (Inl e, s)
         | Inr message \<Rightarrow>
            (case py_get error_info ''code'' JNull of
               Inl e \<Rightarrow> (Inl e, s)
             | Inr error_code \<Rightarrow>
                (case py_get error_info ''error_subcode'' JNull of
                   Inl e \<Rightarrow> (Inl e, s)
                 | Inr error_subcode \<Rightarrow>
                    (Inl (ThreadsApiError (''API request to '' @ url @ '' failed'')),
                     logger_error
                       (''API request failed: '' @ py_str env message
                          @ '' (Code: '' @ py_str env error_code
                          @ '', Subcode: '' @ py_str env error_subcode @ '')'') s))))
      else
        (Inl (ThreadsApiError (''API request to '' @ url @ '' failed'')),
         logger_error (''API request failed: '' @ exc_text r) s))"

text \<open>
  The \<^verbatim>\<open>except requests.RequestException\<close> block. Its first use of \<^verbatim>\<open>response\<close> is
  \<^verbatim>\<open>response.status_code\<close> on line 30; when \<^verbatim>\<open>requests.get\<close> raised, the name was never
  bound and reading it raises \<^verbatim>\<open>UnboundLocalError\<close>.
\<close>

definition request_failed :: "env \<Rightarrow> string \<Rightarrow> http_outcome \<Rightarrow> state \<Rightarrow> json outcome" where
  "request_failed env url got s =
     (case got of
        NoResponse \<Rightarrow> (Inl UnboundLocalError, s)
      | Response r \<Rightarrow>
         (case error_info_of r of
            Inl e \<Rightarrow> (Inl e, s)
          | Inr error_info \<Rightarrow> report_failure env url r error_info s))"

definition make_api_request ::
  "env \<Rightarrow> string \<Rightarrow> (string \<times> string) list \<Rightarrow> state \<Rightarrow> json outcome" where
  "make_api_request env url params s =
     (case requests_get env url params s of
        (NoResponse, s1) \<Rightarrow> request_failed env url NoResponse s1
      | (Response r, s1) \<Rightarrow>
         (if raise_for_status_raises r then request_failed env url (Response r) s1
          else
            (case json_body r of
               None \<Rightarrow> request_failed env url (Response r) s1
             | Some j \<Rightarrow> (Inr j, s1))))"

subsection \<open>\<^verbatim>\<open>get_user_posts\<close> (lines 46 to 76)\<close>

text \<open>
  Line 58. \<^verbatim>\<open>timedelta(days=days)\<close> raises \<^verbatim>\<open>OverflowError\<close> beyond 999999999 days
  either way, and so does the subtraction when the date leaves the years 1 to 9999
  (ordinals 1 to 3652059).
\<close>

definition since_date :: "env \<Rightarrow> int \<Rightarrow> py_exn + string" where
  "since_date env days =
     (if \<bar>days\<bar> > 999999999 then Inl OverflowError
      else
        (let d = today env - days
         in if d < 1 \<or> 3652059 < d then Inl OverflowError else Inr (strftime_ymd env d)))"

definition until_date :: "env \<Rightarrow> string" where
  "until_date env = strftime_ymd env (today env)"

definition posts_url :: string where
  "posts_url = ''https://graph.threads.net/v1.0/me/threads''"

definition posts_params :: "string \<Rightarrow> string \<Rightarrow> string \<Rightarrow> (string \<times> string) list" where
  "posts_params since until access_token =
     [(''fields'',
       ''id,media_product_type,media_type,media_url,permalink,owner,username,text,timestamp,shortcode,thumbnail_url,children,is_quote_post''),
      (''since'', since),
      (''until'', until),
      (''limit'', ''100''),
      (''access_token'', access_token)]"

text \<open>The \<^verbatim>\<open>try\<close> block, lines 70 to 73.\<close>

definition get_user_posts_try ::
  "env \<Rightarrow> (string \<times> string) list \<Rightarrow> string \<Rightarrow> state \<Rightarrow> json outcome" where
  "get_user_posts_try env params username s =
     (case make_api_request env posts_url params s of
        (Inl e, s2) \<Rightarrow> (Inl e, s2)
      | (Inr data, s2) \<Rightarrow>
         (case py_get data ''data'' (JList []) of
            Inl e \<Rightarrow> (Inl e, s2)
          | Inr posts \<Rightarrow>
             (case py_len posts of
                Inl e \<Rightarrow> (Inl e, s2)
              | Inr n \<Rightarrow>
                 (Inr posts,
                  logger_info
                    (''Retrieved '' @ string_of_nat n @ '' posts for user '' @ quoted username)
                    s2))))"

definition get_user_posts :: "env \<Rightarrow> string \<Rightarrow> int \<Rightarrow> string \<Rightarrow> state \<Rightarrow> json outcome" where
  "get_user_posts env access_token days username s =
     (let s1 = logger_info
                 (''Fetching posts for user '' @ quoted username @ '' for the last ''
                    @ string_of_int days @ '' days'') s
      in case since_date env days of
           Inl e \<Rightarrow> (Inl e, s1)
         | Inr since \<Rightarrow>
            (case get_user_posts_try env (posts_params since (until_date env) access_token)
                    username s1 of
               (Inl e, s3) \<Rightarrow>
                 (if is_ThreadsApiError e then
                    (Inr (JList []),
                     logger_error (''Failed to fetch posts for user '' @ quoted username) s3)
                  else (Inl e, s3))
             | (Inr posts, s3) \<Rightarrow> (Inr posts, s3)))"

subsection \<open>\<^verbatim>\<open>get_post_views\<close> (lines 78 to 100)\<close>

definition insights_url :: "env \<Rightarrow> json \<Rightarrow> string" where
  "insights_url env media_id = ''https://graph.threads.net/v1.0/'' @ py_str env media_id @ ''/insights''"

definition views_params :: "string \<Rightarrow> (string \<times> string) list" where
  "views_params access_token = [(''metric'', ''views''), (''access_token'', access_token)]"

text \<open>Line 95: \<^verbatim>\<open>data["data"][0]["values"][0]["value"]\<close>.\<close>

definition views_of :: "json \<Rightarrow> py_exn + json" where
  "views_of data =
     bind_exn (py_getitem_key data ''data'') (\<lambda>a.
     bind_exn (py_getitem_index a 0) (\<lambda>b.
     bind_exn (py_getitem_key b ''values'') (\<lambda>c.
     bind_exn (py_getitem_index c 0) (\<lambda>d.
     py_getitem_key d ''value''))))"

text \<open>Line 98: \<^verbatim>\<open>except (ThreadsApiError, KeyError, IndexError)\<close>.\<close>

definition caught_by_get_post_views :: "py_exn \<Rightarrow> bool" where
  "caught_by_get_post_views e = (is_ThreadsApiError e \<or> e = KeyError \<or> e = IndexError)"

text \<open>The \<^verbatim>\<open>try\<close> block, lines 94 to 97.\<close>

definition get_post_views_try ::
  "env \<Rightarrow> json \<Rightarrow> string \<Rightarrow> string \<Rightarrow> state \<Rightarrow> json outcome" where
  "get_post_views_try env media_id access_token username s =
     (case make_api_request env (insights_url env media_id) (views_params access_token) s of
        (Inl e, s2) \<Rightarrow> (Inl e, s2)
      | (Inr data, s2) \<Rightarrow>
         (case views_of data of
            Inl e \<Rightarrow> (Inl e, s2)
          | Inr views \<Rightarrow>
             (Inr views,
              logger_info
                (''Post '' @ py_str env media_id @ '' has '' @ py_str env views
                   @ '' views (User: '' @ quoted username @ '')'') s2)))"

text \<open>The value returned is a Python value: \<open>JNull\<close> is \<^verbatim>\<open>None\<close>.\<close>

definition get_post_views :: "env \<Rightarrow> json \<Rightarrow> string \<Rightarrow> string \<Rightarrow> state \<Rightarrow> json outcome" where
  "get_post_views env media_id access_token username s =
     (let s1 = logger_info
                 (''Fetching views for post '' @ py_str env media_id @ '' (User: ''
                    @ quoted username @ '')'') s
      in case get_post_views_try env media_id access_token username s1 of
           (Inl e, s3) \<Rightarrow>
             (if caught_by_get_post_views e then
                (Inr JNull,
                 logger_error
                   (''Failed to fetch views for post '' @ py_str env media_id @ '' (User: ''
                      @ quoted username @ '')'') s3)
              else (Inl e, s3))
         | (Inr views, s3) \<Rightarrow> (Inr views, s3))"

subsection \<open>\<^verbatim>\<open>get_average_impressions\<close> (lines 102 to 137)\<close>

text \<open>
  Lines 120 to 122: the accumulators \<^verbatim>\<open>(total_views, valid_post_count)\<close> after one
  lookup.
\<close>

definition accumulate :: "py_num \<times> nat \<Rightarrow> json \<Rightarrow> py_exn + py_num \<times> nat" where
  "accumulate acc views =
     (if views \<noteq> JNull then
        (case py_add (fst acc) views of
           Inl e \<Rightarrow> Inl e
         | Inr total_views \<Rightarrow> Inr (total_views, Suc (snd acc)))
      else Inr acc)"

text \<open>The \<^verbatim>\<open>for\<close> loop of lines 118 to 125 over the posts still to visit.\<close>

fun views_loop ::
  "env \<Rightarrow> string \<Rightarrow> string \<Rightarrow> json list \<Rightarrow> py_num \<times> nat \<Rightarrow> state \<Rightarrow> (py_num \<times> nat) outcome" where
  "views_loop env access_token username [] acc s = (Inr acc, s)"
| "views_loop env access_token username (post # posts) acc s =
     (case py_getitem_key post ''id'' of
        Inl e \<Rightarrow> (Inl e, s)
      | Inr media_id \<Rightarrow>
         (case get_post_views env media_id access_token username s of
            (Inl e, s1) \<Rightarrow> (Inl e, s1)
          | (Inr views, s1) \<Rightarrow>
             (case accumulate acc views of
                Inl e \<Rightarrow> (Inl e, s1)
              | Inr acc' \<Rightarrow>
                 views_loop env access_token username posts acc' (time_sleep (1 / 2) s1))))"

text \<open>Line 111, the first thing a run does.\<close>

definition announce :: "string \<Rightarrow> int \<Rightarrow> state \<Rightarrow> state" where
  "announce username days s =
     logger_info
       (''Calculating average impressions for user '' @ quoted username
          @ '' for the last '' @ string_of_int days @ '' days'') s"

text \<open>The \<^verbatim>\<open>try\<close> block, lines 114 to 133.\<close>

definition get_average_impressions_try ::
  "env \<Rightarrow> string \<Rightarrow> int \<Rightarrow> string \<Rightarrow> state \<Rightarrow> (real option) outcome" where
  "get_average_impressions_try env access_token days username s =
     (case get_user_posts env access_token days username s of
        (Inl e, s2) \<Rightarrow> (Inl e, s2)
      | (Inr posts, s2) \<Rightarrow>
         (case py_iter posts of
            Inl e \<Rightarrow> (Inl e, s2)
          | Inr items \<Rightarrow>
             (case views_loop env access_token username items (PInt 0, 0) s2 of
                (Inl e, s3) \<Rightarrow> (Inl e, s3)
              | (Inr (total_views, valid_post_count), s3) \<Rightarrow>
                 (if valid_post_count > 0 then
                    (let average_views = py_truediv total_views valid_post_count
                     in (Inr (Some average_views),
                         logger_info
                           (''Average impressions for user '' @ quoted username @ '': ''
                              @ format_2f env average_views @ '' (based on ''
                              @ string_of_nat valid_post_count @ '' posts)'') s3))
                  else
                    (Inr None,
                     logger_warning
                       (''No valid posts found to calculate average impressions for user ''
                          @ quoted username) s3)))))"

definition get_average_impressions ::
  "env \<Rightarrow> string \<Rightarrow> int \<Rightarrow> string \<Rightarrow> state \<Rightarrow> (real option) outcome" where
  "get_average_impressions env access_token days username s =
     (case get_average_impressions_try env access_token days username
             (announce username days s) of
        (Inl e, s4) \<Rightarrow>
          (if is_ThreadsApiError e then
             (Inr None,
              logger_error
                (''Failed to calculate average impressions for user '' @ quoted username) s4)
           else (Inl e, s4))
      | (Inr r, s4) \<Rightarrow> (Inr r, s4))"

section \<open>What a run is measured against\<close>

text \<open>
  The notions the properties are stated with. They are read off a run; the program does
  not use them.
\<close>





text \<open>The Python numbers among the JSON values (a \<^verbatim>\<open>bool\<close> is an \<^verbatim>\<open>int\<close>), and their values.\<close>

fun is_number :: "json \<Rightarrow> bool" where
  "is_number (JInt i) = True"
| "is_number (JBool b) = True"
| "is_number (JFloat x) = True"
| "is_number _ = False"



text \<open>A view count as the data model has it: a non-negative integer.\<close>

fun is_view_count :: "json \<Rightarrow> bool" where
  "is_view_count (JInt i) = (0 \<le> i)"
| "is_view_count _ = False"

text \<open>The requests and delays of a trace, without the log records, and the delays alone.\<close>

fun is_log :: "event \<Rightarrow> bool" where
  "is_log (Log l m) = True"
| "is_log _ = False"

definition skeleton :: "state \<Rightarrow> event list" where
  "skeleton s = filter (\<lambda>e. \<not> is_log e) (trace s)"





section \<open>Example runs\<close>

text \<open>
  Concrete environments for the examples below. The formatters of \<open>example_env\<close> are
  stand-ins: an example never depends on how a float or a date prints.
\<close>

definition example_env :: "(nat \<Rightarrow> string \<Rightarrow> (string \<times> string) list \<Rightarrow> http_outcome) \<Rightarrow> env" where
  "example_env net =
     \<lparr>http_get = net, today = 739000, strftime_ymd = string_of_int, repr_str = quoted,
      repr_float = (\<lambda>x. ''float''), format_2f = (\<lambda>x. ''float'')\<rparr>"

definition start :: state where
  "start = \<lparr>calls = 0, trace = []\<rparr>"

definition ok_response :: "json \<Rightarrow> http_outcome" where
  "ok_response j = Response \<lparr>status_code = 200, json_body = Some j, exc_text = []\<rparr>"

definition failed_response :: "nat \<Rightarrow> json option \<Rightarrow> http_outcome" where
  "failed_response code b =
     Response \<lparr>status_code = code, json_body = b, exc_text = ''HTTPError''\<rparr>"

text \<open>The body of a post list with the given ids, and of an insights answer.\<close>

definition posts_body :: "string list \<Rightarrow> json" where
  "posts_body ids = JObj [(''data'', JList (map (\<lambda>i. JObj [(''id'', JStr i)]) ids))]"

definition views_body :: "json \<Rightarrow> json" where
  "views_body v = JObj [(''data'', JList [JObj [(''values'', JList [JObj [(''value'', v)]])]])]"

text \<open>No request gets a response.\<close>

definition offline_net :: "nat \<Rightarrow> string \<Rightarrow> (string \<times> string) list \<Rightarrow> http_outcome" where
  "offline_net k url params = NoResponse"

text \<open>Three posts; the lookups give 100, fail with status 500, and give 300.\<close>

definition three_posts_net :: "nat \<Rightarrow> string \<Rightarrow> (string \<times> string) list \<Rightarrow> http_outcome" where
  "three_posts_net k url params =
     (if k = 0 then ok_response (posts_body [''p1'', ''p2'', ''p3''])
      else if k = 1 then ok_response (views_body (JInt 100))
      else if k = 2 then failed_response 500 None
      else ok_response (views_body (JInt 300)))"


text \<open>The invalid-token answer of the API, at status 400 and at status 401.\<close>

definition invalid_token_body :: json where
  "invalid_token_body =
     JObj [(''error'',
            JObj [(''message'', JStr ''Invalid token''), (''code'', JInt 190),
                  (''error_subcode'', JInt 463)])]"

definition invalid_token_net :: "nat \<Rightarrow> nat \<Rightarrow> string \<Rightarrow> (string \<times> string) list \<Rightarrow> http_outcome" where
  "invalid_token_net code k url params = failed_response code (Some invalid_token_body)"

text \<open>Every request is answered with status 200 and the same body.\<close>

definition constant_net :: "json \<Rightarrow> nat \<Rightarrow> string \<Rightarrow> (string \<times> string) list \<Rightarrow> http_outcome" where
  "constant_net j k url params = ok_response j"

section \<open>What each function does to the state and what it can raise\<close>

subsection \<open>Logging and sleeping\<close>

lemma skeleton_simps:
  "skeleton (logger_info m s) = skeleton s"
  "skeleton (logger_warning m s) = skeleton s"
  "skeleton (logger_error m s) = skeleton s"
  "skeleton (time_sleep d s) = skeleton s @ [Sleep d]"
  by (simp_all add: skeleton_def logger_info_def logger_warning_def logger_error_def time_sleep_def)

lemma calls_simps:
  "calls (logger_info m s) = calls s"
  "calls (logger_warning m s) = calls s"
  "calls (logger_error m s) = calls s"
  "calls (time_sleep d s) = calls s"
  by (simp_all add: logger_info_def logger_warning_def logger_error_def time_sleep_def)

subsection \<open>\<^verbatim>\<open>make_api_request\<close>\<close>

text \<open>
  A request is one GET whatever comes of it. What leaves the function is the value of a
  response that passed both checks, and otherwise one of three exceptions.
\<close>

lemma report_failure_effect:
  "report_failure env url r info s = (x, s') \<Longrightarrow> calls s' = calls s \<and> skeleton s' = skeleton s"
  by (auto simp: report_failure_def calls_simps skeleton_simps split: if_splits sum.splits)

lemma py_get_raises: "py_get v k d = Inl e \<Longrightarrow> e = AttributeError"
  by (cases v) (auto split: option.splits)

lemma report_failure_raises:
  "report_failure env url r info s = (x, s') \<Longrightarrow>
     \<exists>e. x = Inl e \<and> (is_ThreadsApiError e \<or> e = AttributeError)"
  by (cases info)
    (auto simp: report_failure_def is_ThreadsApiError_def split: if_splits option.splits)

lemma request_failed_effect:
  "request_failed env url got s = (x, s') \<Longrightarrow> calls s' = calls s \<and> skeleton s' = skeleton s"
  by (auto simp: request_failed_def split: http_outcome.splits sum.splits dest: report_failure_effect)

lemma request_failed_raises:
  "request_failed env url got s = (x, s') \<Longrightarrow>
     \<exists>e. x = Inl e \<and> (is_ThreadsApiError e \<or> e = AttributeError \<or> e = UnboundLocalError)"
  by (auto simp: request_failed_def error_info_of_def
      split: http_outcome.splits sum.splits option.splits if_splits
      dest: py_get_raises dest!: report_failure_raises)

lemma make_api_request_effect:
  "make_api_request env url params s = (x, s') \<Longrightarrow>
     calls s' = Suc (calls s) \<and> skeleton s' = skeleton s @ [Get url params]"
  by (auto simp: make_api_request_def requests_get_def skeleton_def
      split: http_outcome.splits if_splits option.splits dest!: request_failed_effect)

lemma make_api_request_raises:
  "make_api_request env url params s = (Inl e, s') \<Longrightarrow>
     is_ThreadsApiError e \<or> e = AttributeError \<or> e = UnboundLocalError"
  by (auto simp: make_api_request_def requests_get_def
      split: http_outcome.splits if_splits option.splits dest!: request_failed_raises)

lemma report_failure_fst:
  "fst (report_failure env url r info s) = fst (report_failure env url r info t)"
  by (simp add: report_failure_def split: sum.splits)

lemma request_failed_fst:
  "fst (request_failed env url got s) = fst (request_failed env url got t)"
  by (simp add: request_failed_def report_failure_fst [of env url _ _ s t]
      split: http_outcome.splits sum.splits)

lemma make_api_request_fst:
  "calls s = calls t \<Longrightarrow>
     fst (make_api_request env url params s) = fst (make_api_request env url params t)"
  by (simp add: make_api_request_def requests_get_def request_failed_fst [of env url _ "s\<lparr>calls := Suc (calls t), trace := trace s @ [Get url params]\<rparr>" "t\<lparr>calls := Suc (calls t), trace := trace t @ [Get url params]\<rparr>"]
      split: http_outcome.splits option.splits)

subsection \<open>\<^verbatim>\<open>get_post_views\<close>\<close>

lemma get_post_views_try_effect:
  "get_post_views_try env media_id access_token username s = (x, s') \<Longrightarrow>
     calls s' = Suc (calls s) \<and>
     skeleton s' = skeleton s @ [Get (insights_url env media_id) (views_params access_token)]"
  by (auto simp: get_post_views_try_def calls_simps skeleton_simps
      split: prod.splits sum.splits dest!: make_api_request_effect)

lemma get_post_views_effect:
  "get_post_views env media_id access_token username s = (x, s') \<Longrightarrow>
     calls s' = Suc (calls s) \<and>
     skeleton s' = skeleton s @ [Get (insights_url env media_id) (views_params access_token)]"
  by (auto simp: get_post_views_def Let_def calls_simps skeleton_simps
      split: prod.splits sum.splits if_splits dest!: get_post_views_try_effect)

lemma get_post_views_raises:
  "get_post_views env media_id access_token username s = (Inl e, s') \<Longrightarrow>
     \<not> caught_by_get_post_views e"
  by (auto simp: get_post_views_def Let_def split: prod.splits sum.splits if_splits)

lemma get_post_views_try_fst:
  assumes "calls s = calls t"
  shows "fst (get_post_views_try env media_id access_token u s) =
         fst (get_post_views_try env media_id access_token u' t)"
proof -
  let ?url = "insights_url env media_id" and ?ps = "views_params access_token"
  obtain x s2 where a: "make_api_request env ?url ?ps s = (x, s2)"
    by (cases "make_api_request env ?url ?ps s")
  obtain y t2 where b: "make_api_request env ?url ?ps t = (y, t2)"
    by (cases "make_api_request env ?url ?ps t")
  have "x = y"
    using make_api_request_fst [OF assms, of env ?url ?ps] a b by simp
  with a b show ?thesis
    by (simp add: get_post_views_try_def split: sum.splits)
qed

lemma get_post_views_fst:
  assumes "calls s = calls t"
  shows "fst (get_post_views env media_id access_token u s) =
         fst (get_post_views env media_id access_token u' t)"
proof -
  let ?s1 = "logger_info (''Fetching views for post '' @ py_str env media_id @ '' (User: ''
                    @ quoted u @ '')'') s"
  let ?t1 = "logger_info (''Fetching views for post '' @ py_str env media_id @ '' (User: ''
                    @ quoted u' @ '')'') t"
  obtain x s2 where a: "get_post_views_try env media_id access_token u ?s1 = (x, s2)"
    by (cases "get_post_views_try env media_id access_token u ?s1")
  obtain y t2 where b: "get_post_views_try env media_id access_token u' ?t1 = (y, t2)"
    by (cases "get_post_views_try env media_id access_token u' ?t1")
  have "calls ?s1 = calls ?t1" using assms by (simp add: calls_simps)
  from get_post_views_try_fst [OF this, of env media_id access_token u u'] a b
  have "x = y" by simp
  with a b show ?thesis
    by (simp add: get_post_views_def Let_def split: sum.splits)
qed

lemma since_date_raises: "since_date env days = Inl e \<Longrightarrow> e = OverflowError"
  by (simp add: since_date_def Let_def split: if_splits)

subsection \<open>\<^verbatim>\<open>get_user_posts\<close>\<close>

lemma get_user_posts_try_effect:
  "get_user_posts_try env params username s = (x, s') \<Longrightarrow>
     calls s' = Suc (calls s) \<and> skeleton s' = skeleton s @ [Get posts_url params]"
  by (auto simp: get_user_posts_try_def calls_simps skeleton_simps
      split: prod.splits sum.splits dest!: make_api_request_effect)

lemma get_user_posts_try_fst:
  assumes "calls s = calls t"
  shows "fst (get_user_posts_try env params u s) = fst (get_user_posts_try env params u' t)"
proof -
  obtain x s2 where a: "make_api_request env posts_url params s = (x, s2)"
    by (cases "make_api_request env posts_url params s")
  obtain y t2 where b: "make_api_request env posts_url params t = (y, t2)"
    by (cases "make_api_request env posts_url params t")
  have "x = y"
    using make_api_request_fst [OF assms, of env posts_url params] a b by simp
  with a b show ?thesis
    by (simp add: get_user_posts_try_def split: sum.splits)
qed

lemma get_user_posts_raises:
  "get_user_posts env access_token days username s = (Inl e, s') \<Longrightarrow> \<not> is_ThreadsApiError e"
  by (auto simp: get_user_posts_def Let_def is_ThreadsApiError_def
      split: prod.splits sum.splits if_splits dest!: since_date_raises)

lemma get_user_posts_effect:
  "get_user_posts env access_token days username s = (x, s') \<Longrightarrow>
     (case since_date env days of
        Inl e \<Rightarrow> calls s' = calls s \<and> skeleton s' = skeleton s
      | Inr d \<Rightarrow>
          calls s' = Suc (calls s) \<and>
          skeleton s' =
            skeleton s @ [Get posts_url (posts_params d (until_date env) access_token)])"
  by (auto simp: get_user_posts_def Let_def calls_simps skeleton_simps
      split: prod.splits sum.splits if_splits dest!: get_user_posts_try_effect)

lemma get_user_posts_fst:
  assumes "calls s = calls t"
  shows "fst (get_user_posts env access_token days u s) =
         fst (get_user_posts env access_token days u' t)"
proof (cases "since_date env days")
  case (Inl e)
  then show ?thesis by (simp add: get_user_posts_def Let_def)
next
  case (Inr d)
  let ?ps = "posts_params d (until_date env) access_token"
  let ?s1 = "logger_info (''Fetching posts for user '' @ quoted u @ '' for the last ''
                    @ string_of_int days @ '' days'') s"
  let ?t1 = "logger_info (''Fetching posts for user '' @ quoted u' @ '' for the last ''
                    @ string_of_int days @ '' days'') t"
  obtain x s2 where a: "get_user_posts_try env ?ps u ?s1 = (x, s2)"
    by (cases "get_user_posts_try env ?ps u ?s1")
  obtain y t2 where b: "get_user_posts_try env ?ps u' ?t1 = (y, t2)"
    by (cases "get_user_posts_try env ?ps u' ?t1")
  have "calls ?s1 = calls ?t1" using assms by (simp add: calls_simps)
  from get_user_posts_try_fst [OF this, of env ?ps u u'] a b
  have "x = y" by simp
  with a b Inr show ?thesis
    by (simp add: get_user_posts_def Let_def split: sum.splits)
qed

lemma get_user_posts_calls:
  "calls s = calls t \<Longrightarrow>
     calls (snd (get_user_posts env access_token days u s)) =
     calls (snd (get_user_posts env access_token days u' t))"
  using get_user_posts_effect [of env access_token days u s]
    get_user_posts_effect [of env access_token days u' t]
  by (cases "get_user_posts env access_token days u s";
      cases "get_user_posts env access_token days u' t"; cases "since_date env days") auto

subsection \<open>The loop\<close>

lemma py_add_raises: "py_add t v = Inl e \<Longrightarrow> e = TypeError \<and> \<not> is_number v"
  by (cases t; cases v) auto


lemma accumulate_raises:
  "accumulate acc v = Inl e \<Longrightarrow> e = TypeError \<and> v \<noteq> JNull \<and> \<not> is_number v"
  by (auto simp: accumulate_def split: if_splits sum.splits dest: py_add_raises)




lemma py_getitem_key_raises: "py_getitem_key v k = Inl e \<Longrightarrow> e = KeyError \<or> e = TypeError"
  by (cases v) (auto split: option.splits)

lemma views_loop_raises:
  "views_loop env access_token username items acc s = (Inl e, s') \<Longrightarrow> \<not> is_ThreadsApiError e"
proof (induction items arbitrary: acc s)
  case Nil
  then show ?case by simp
next
  case (Cons post items)
  show ?case
  proof (cases "py_getitem_key post ''id''")
    case (Inl e')
    with Cons.prems py_getitem_key_raises [OF Inl] show ?thesis
      by (auto simp: is_ThreadsApiError_def)
  next
    case (Inr media_id)
    obtain x s1 where g: "get_post_views env media_id access_token username s = (x, s1)"
      by (cases "get_post_views env media_id access_token username s")
    show ?thesis
    proof (cases x)
      case (Inl e')
      with Cons.prems Inr g get_post_views_raises [of env media_id access_token username s e' s1]
      show ?thesis by (auto simp: caught_by_get_post_views_def)
    next
      case v: (Inr views)
      show ?thesis
      proof (cases "accumulate acc views")
        case (Inl e')
        with Cons.prems Inr g v accumulate_raises [OF Inl] show ?thesis
          by (auto simp: is_ThreadsApiError_def)
      next
        case a: (Inr acc')
        with Cons.prems Inr g v show ?thesis
          by (auto dest: Cons.IH)
      qed
    qed
  qed
qed






lemma views_loop_fst:
  "calls s = calls t \<Longrightarrow>
     fst (views_loop env access_token u items acc s) =
     fst (views_loop env access_token u' items acc t)"
proof (induction items arbitrary: acc s t)
  case Nil
  then show ?case by simp
next
  case (Cons post items)
  show ?case
  proof (cases "py_getitem_key post ''id''")
    case (Inl e)
    then show ?thesis by simp
  next
    case (Inr media_id)
    obtain x s1 where g: "get_post_views env media_id access_token u s = (x, s1)"
      by (cases "get_post_views env media_id access_token u s")
    obtain y t1 where h: "get_post_views env media_id access_token u' t = (y, t1)"
      by (cases "get_post_views env media_id access_token u' t")
    have "x = y"
      using get_post_views_fst [OF Cons.prems, of env media_id access_token u u'] g h by simp
    with h have h': "get_post_views env media_id access_token u' t = (x, t1)"
      by simp
    have c: "calls (time_sleep (1 / 2) s1) = calls (time_sleep (1 / 2) t1)"
      using get_post_views_effect [OF g] get_post_views_effect [OF h'] Cons.prems
      by (simp add: calls_simps)
    show ?thesis
    proof (cases x)
      case (Inl e)
      with Inr g h' show ?thesis by simp
    next
      case v: (Inr views)
      show ?thesis
      proof (cases "accumulate acc views")
        case (Inl e)
        with Inr g h' v show ?thesis by simp
      next
        case a: (Inr acc1)
        with Inr g h' v Cons.IH [OF c, of acc1] show ?thesis by simp
      qed
    qed
  qed
qed

subsection \<open>\<^verbatim>\<open>get_average_impressions\<close>\<close>

lemma calls_announce: "calls (announce u days s) = calls s"
  by (simp add: announce_def calls_simps)


lemma py_iter_raises: "py_iter v = Inl e \<Longrightarrow> e = TypeError"
  by (cases v) auto

lemma get_average_impressions_try_raises:
  assumes "get_average_impressions_try env access_token days username s = (Inl e, s')"
  shows "\<not> is_ThreadsApiError e"
proof -
  obtain x s2 where g: "get_user_posts env access_token days username s = (x, s2)"
    by (cases "get_user_posts env access_token days username s")
  show ?thesis
  proof (cases x)
    case (Inl e')
    with assms g get_user_posts_raises [of env access_token days username s e' s2]
    show ?thesis by (simp add: get_average_impressions_try_def)
  next
    case p: (Inr posts)
    show ?thesis
    proof (cases "py_iter posts")
      case (Inl e')
      with assms g p py_iter_raises [OF Inl] show ?thesis
        by (simp add: get_average_impressions_try_def is_ThreadsApiError_def)
    next
      case i: (Inr items)
      obtain y s3 where l: "views_loop env access_token username items (PInt 0, 0) s2 = (y, s3)"
        by (cases "views_loop env access_token username items (PInt 0, 0) s2")
      show ?thesis
      proof (cases y)
        case (Inl e')
        with assms g p i l views_loop_raises [of env access_token username items "(PInt 0, 0)" s2 e' s3]
        show ?thesis by (simp add: get_average_impressions_try_def)
      next
        case (Inr acc)
        with assms g p i l show ?thesis
          by (cases acc) (simp add: get_average_impressions_try_def Let_def split: if_splits)
      qed
    qed
  qed
qed

text \<open>So the handler of lines 135 to 137 never runs.\<close>

lemma get_average_impressions_is_try:
  "get_average_impressions env access_token days username s =
     get_average_impressions_try env access_token days username (announce username days s)"
proof -
  obtain x s4 where t: "get_average_impressions_try env access_token days username
      (announce username days s) = (x, s4)"
    by (cases "get_average_impressions_try env access_token days username (announce username days s)")
  show ?thesis
  proof (cases x)
    case (Inl e)
    with t get_average_impressions_try_raises [of env access_token days username _ e s4]
    show ?thesis by (simp add: get_average_impressions_def)
  next
    case (Inr r)
    with t show ?thesis by (simp add: get_average_impressions_def)
  qed
qed







text \<open>The result of the \<^verbatim>\<open>try\<close> block does not depend on the name or on the log.\<close>

lemma get_average_impressions_try_fst:
  assumes "calls s = calls t"
  shows "fst (get_average_impressions_try env access_token days u s) =
         fst (get_average_impressions_try env access_token days u' t)"
proof -
  obtain x s2 where g: "get_user_posts env access_token days u s = (x, s2)"
    by (cases "get_user_posts env access_token days u s")
  obtain y t2 where h: "get_user_posts env access_token days u' t = (y, t2)"
    by (cases "get_user_posts env access_token days u' t")
  have "x = y"
    using get_user_posts_fst [OF assms, of env access_token days u u'] g h by simp
  with h have h': "get_user_posts env access_token days u' t = (x, t2)" by simp
  have c: "calls s2 = calls t2"
    using get_user_posts_calls [OF assms, of env access_token days u u'] g h by simp
  show ?thesis
  proof (cases x)
    case (Inl e)
    with g h' show ?thesis by (simp add: get_average_impressions_try_def)
  next
    case p: (Inr posts)
    show ?thesis
    proof (cases "py_iter posts")
      case (Inl e)
      with g h' p show ?thesis by (simp add: get_average_impressions_try_def)
    next
      case i: (Inr items)
      obtain a s3 where l: "views_loop env access_token u items (PInt 0, 0) s2 = (a, s3)"
        by (cases "views_loop env access_token u items (PInt 0, 0) s2")
      obtain b t3 where m: "views_loop env access_token u' items (PInt 0, 0) t2 = (b, t3)"
        by (cases "views_loop env access_token u' items (PInt 0, 0) t2")
      have "a = b"
        using views_loop_fst [OF c, of env access_token u items "(PInt 0, 0)" u'] l m by simp
      with m have m': "views_loop env access_token u' items (PInt 0, 0) t2 = (a, t3)" by simp
      show ?thesis
      proof (cases a)
        case (Inl e)
        with g h' p i l m' show ?thesis by (simp add: get_average_impressions_try_def)
      next
        case (Inr acc)
        with g h' p i l m' show ?thesis
          by (cases acc) (simp add: get_average_impressions_try_def Let_def)
      qed
    qed
  qed
qed

subsection \<open>Requests by their outcome\<close>

lemma make_api_request_no_response:
  "http_get env (calls s) url params = NoResponse \<Longrightarrow>
     make_api_request env url params s =
       (Inl UnboundLocalError, s\<lparr>calls := Suc (calls s), trace := trace s @ [Get url params]\<rparr>)"
  by (simp add: make_api_request_def requests_get_def request_failed_def)

lemma make_api_request_ok:
  "http_get env (calls s) url params = Response r \<Longrightarrow> \<not> raise_for_status_raises r \<Longrightarrow>
   json_body r = Some j \<Longrightarrow>
     make_api_request env url params s =
       (Inr j, s\<lparr>calls := Suc (calls s), trace := trace s @ [Get url params]\<rparr>)"
  by (simp add: make_api_request_def requests_get_def)

lemma make_api_request_returns:
  assumes "make_api_request env url params s = (Inr j, s')"
  shows "\<exists>r. http_get env (calls s) url params = Response r \<and> \<not> raise_for_status_raises r \<and>
             json_body r = Some j"
proof (cases "http_get env (calls s) url params")
  case NoResponse
  from make_api_request_no_response [OF this] assms show ?thesis by simp
next
  case (Response r)
  show ?thesis
  proof (cases "raise_for_status_raises r \<or> json_body r = None")
    case True
    let ?s1 = "s\<lparr>calls := Suc (calls s), trace := trace s @ [Get url params]\<rparr>"
    from True Response
    have "make_api_request env url params s = request_failed env url (Response r) ?s1"
      by (auto simp: make_api_request_def requests_get_def)
    with assms request_failed_raises [of env url "Response r" ?s1 "Inr j" s']
    show ?thesis by simp
  next
    case False
    then obtain j' where "json_body r = Some j'" by auto
    with False Response assms make_api_request_ok [OF Response, of j'] show ?thesis
      by simp
  qed
qed

lemma get_user_posts_no_response:
  assumes "since_date env days = Inr since"
    and "http_get env (calls s) posts_url (posts_params since (until_date env) access_token)
           = NoResponse"
  shows "fst (get_user_posts env access_token days username s) = Inl UnboundLocalError"
proof -
  let ?s1 = "logger_info (''Fetching posts for user '' @ quoted username @ '' for the last ''
                    @ string_of_int days @ '' days'') s"
  have "http_get env (calls ?s1) posts_url (posts_params since (until_date env) access_token)
           = NoResponse"
    using assms(2) by (simp add: calls_simps)
  from make_api_request_no_response [OF this] assms(1) show ?thesis
    by (simp add: get_user_posts_def get_user_posts_try_def Let_def is_ThreadsApiError_def)
qed

section \<open>The claims\<close>





text \<open>
  C3. The claim: on any failure, a non-2xx status or a network failure with no response,
  \<^verbatim>\<open>make_api_request\<close> raises \<^verbatim>\<open>ThreadsApiError\<close> and nothing else. The code at a
  network failure: \<^verbatim>\<open>requests.get\<close> raised, \<^verbatim>\<open>response\<close> was never bound, and line 30
  of the handler reads it. The request leaves with \<^verbatim>\<open>UnboundLocalError\<close>, and nothing
  is logged.
\<close>

theorem make_api_request_without_response:
  assumes "http_get env (calls s) url params = NoResponse"
  shows "make_api_request env url params s =
           (Inl UnboundLocalError,
            s\<lparr>calls := Suc (calls s), trace := trace s @ [Get url params]\<rparr>)"
  using assms by (simp add: make_api_request_def requests_get_def request_failed_def)

theorem make_api_request_without_response_witness:
  "http_get (example_env offline_net) (calls start) ''https://graph.threads.net/v1.0/me/threads'' []
     = NoResponse \<and>
   fst (make_api_request (example_env offline_net) ''https://graph.threads.net/v1.0/me/threads'' []
          start) = Inl UnboundLocalError \<and>
   \<not> is_ThreadsApiError UnboundLocalError"
  using make_api_request_without_response
          [of "example_env offline_net" start "''https://graph.threads.net/v1.0/me/threads''" "[]"]
  by (simp add: example_env_def offline_net_def is_ThreadsApiError_def)

text \<open>
  C4. The claim: \<^verbatim>\<open>get_post_views\<close> never raises, and returns \<^verbatim>\<open>None\<close> whenever the
  response is not of the shape \<^verbatim>\<open>data[0].values[0].value\<close>, wrong types included. The
  code catches \<^verbatim>\<open>ThreadsApiError\<close>, \<^verbatim>\<open>KeyError\<close> and \<^verbatim>\<open>IndexError\<close> only: a body
  whose subscription raises \<^verbatim>\<open>TypeError\<close>, such as \<^verbatim>\<open>{"data": null}\<close>, makes the
  function raise it.
\<close>

theorem get_post_views_wrong_type:
  assumes "http_get env (calls s) (insights_url env media_id) (views_params access_token)
             = Response r"
    and "\<not> raise_for_status_raises r"
    and "json_body r = Some data"
    and "views_of data = Inl TypeError"
  shows "fst (get_post_views env media_id access_token username s) = Inl TypeError"
proof -
  let ?s1 = "logger_info (''Fetching views for post '' @ py_str env media_id @ '' (User: ''
                    @ quoted username @ '')'') s"
  have "http_get env (calls ?s1) (insights_url env media_id) (views_params access_token)
             = Response r"
    using assms(1) by (simp add: calls_simps)
  from make_api_request_ok [OF this assms(2,3)] assms(4) show ?thesis
    by (simp add: get_post_views_def get_post_views_try_def Let_def
        caught_by_get_post_views_def is_ThreadsApiError_def)
qed

theorem get_post_views_wrong_type_witness:
  "views_of (JObj [(''data'', JNull)]) = Inl TypeError \<and>
   fst (get_post_views (example_env (constant_net (JObj [(''data'', JNull)]))) (JStr ''p1'')
          ''token'' ''konomi_bura'' start) = Inl TypeError"
proof -
  let ?r = "\<lparr>status_code = 200, json_body = Some (JObj [(''data'', JNull)]), exc_text = []\<rparr>"
  have v: "views_of (JObj [(''data'', JNull)]) = Inl TypeError"
    by (simp add: views_of_def bind_exn_def)
  have g: "http_get (example_env (constant_net (JObj [(''data'', JNull)]))) (calls start)
             (insights_url (example_env (constant_net (JObj [(''data'', JNull)]))) (JStr ''p1''))
             (views_params ''token'') = Response ?r"
    by (simp add: example_env_def constant_net_def ok_response_def)
  have n: "\<not> raise_for_status_raises ?r"
    by (simp add: raise_for_status_raises_def)
  have b: "json_body ?r = Some (JObj [(''data'', JNull)])"
    by simp
  from get_post_views_wrong_type [OF g n b v] v show ?thesis by simp
qed

text \<open>
  C5. The claim: \<^verbatim>\<open>get_user_posts\<close> returns an empty list whenever the API call fails
  for any reason. The code at a network failure: \<^verbatim>\<open>make_api_request\<close> raises
  \<^verbatim>\<open>UnboundLocalError\<close>, which \<^verbatim>\<open>except ThreadsApiError\<close> does not catch.
\<close>

theorem get_user_posts_without_response:
  assumes "since_date env days = Inr since"
    and "http_get env (calls s) posts_url (posts_params since (until_date env) access_token)
           = NoResponse"
  shows "fst (get_user_posts env access_token days username s) = Inl UnboundLocalError"
  using assms by (rule get_user_posts_no_response)

theorem get_user_posts_without_response_witness:
  "since_date (example_env offline_net) 7 = Inr ''738993'' \<and>
   fst (get_user_posts (example_env offline_net) ''token'' 7 ''konomi_bura'' start)
     = Inl UnboundLocalError"
proof -
  have d: "since_date (example_env offline_net) 7 = Inr ''738993''"
    by code_simp
  have g: "http_get (example_env offline_net) (calls start) posts_url
             (posts_params ''738993'' (until_date (example_env offline_net)) ''token'') = NoResponse"
    by (simp add: example_env_def offline_net_def)
  from get_user_posts_without_response [OF d g] d show ?thesis by simp
qed

text \<open>
  C6. The claim: no exception surfaces from \<^verbatim>\<open>get_average_impressions\<close>, whatever the
  API does. The code at a network failure on the first request: the
  \<^verbatim>\<open>UnboundLocalError\<close> passes through \<^verbatim>\<open>get_user_posts\<close> and through the
  \<^verbatim>\<open>except ThreadsApiError\<close> of line 135.
\<close>

theorem get_average_impressions_without_response:
  assumes "since_date env days = Inr since"
    and "http_get env (calls s) posts_url (posts_params since (until_date env) access_token)
           = NoResponse"
  shows "fst (get_average_impressions env access_token days username s) = Inl UnboundLocalError"
proof -
  have "http_get env (calls (announce username days s)) posts_url
          (posts_params since (until_date env) access_token) = NoResponse"
    using assms(2) by (simp add: calls_announce)
  from get_user_posts_no_response [OF assms(1) this, of username]
  show ?thesis
    by (cases "get_user_posts env access_token days username (announce username days s)")
      (simp add: get_average_impressions_is_try get_average_impressions_try_def)
qed

theorem get_average_impressions_without_response_witness:
  "since_date (example_env offline_net) 7 = Inr ''738993'' \<and>
   fst (get_average_impressions (example_env offline_net) ''token'' 7 ''konomi_bura'' start)
     = Inl UnboundLocalError"
proof -
  have d: "since_date (example_env offline_net) 7 = Inr ''738993''"
    by code_simp
  have g: "http_get (example_env offline_net) (calls start) posts_url
             (posts_params ''738993'' (until_date (example_env offline_net)) ''token'') = NoResponse"
    by (simp add: example_env_def offline_net_def)
  from get_average_impressions_without_response [OF d g] d show ?thesis by simp
qed

text \<open>
  C7. The structured error report is for status 400 and no other. At status 400 with the
  body \<^verbatim>\<open>{"error": {"message": "Invalid token", "code": 190, "error_subcode": 463}}\<close>
  the request logs \<^verbatim>\<open>API request failed: Invalid token (Code: 190, Subcode: 463)\<close> at
  level ERROR and raises \<^verbatim>\<open>ThreadsApiError\<close>. A response that fails with any other
  status logs the text of the exception, whatever its body holds, and raises
  \<^verbatim>\<open>ThreadsApiError\<close> as well.
\<close>

theorem structured_error_only_at_400:
  assumes "http_get env (calls s) url params = Response r"
  shows "(status_code r = 400 \<and> json_body r = Some invalid_token_body \<longrightarrow>
            make_api_request env url params s =
              (Inl (ThreadsApiError (''API request to '' @ url @ '' failed'')),
               s\<lparr>calls := Suc (calls s),
                   trace := trace s @
                     [Get url params,
                      Log ERROR ''API request failed: Invalid token (Code: 190, Subcode: 463)'']\<rparr>)) \<and>
         (status_code r \<noteq> 400 \<and> (raise_for_status_raises r \<or> json_body r = None) \<longrightarrow>
            make_api_request env url params s =
              (Inl (ThreadsApiError (''API request to '' @ url @ '' failed'')),
               s\<lparr>calls := Suc (calls s),
                   trace := trace s @
                     [Get url params, Log ERROR (''API request failed: '' @ exc_text r)]\<rparr>))"
proof -
  let ?s1 = "s\<lparr>calls := Suc (calls s), trace := trace s @ [Get url params]\<rparr>"
  have at_400: "request_failed env url (Response r) ?s1 =
      (Inl (ThreadsApiError (''API request to '' @ url @ '' failed'')),
       s\<lparr>calls := Suc (calls s),
           trace := trace s @
             [Get url params,
              Log ERROR ''API request failed: Invalid token (Code: 190, Subcode: 463)'']\<rparr>)"
    if "status_code r = 400" and "json_body r = Some invalid_token_body"
  proof -
    have d: "string_of_int 190 = ''190''" "string_of_int 463 = ''463''"
      by (simp_all add: string_of_int_def decimal.simps digit_char_def)
    from that show ?thesis
      by (simp add: request_failed_def error_info_of_def invalid_token_body_def
          report_failure_def py_str_def logger_error_def d)
  qed
  have elsewhere: "request_failed env url (Response r) ?s1 =
      (Inl (ThreadsApiError (''API request to '' @ url @ '' failed'')),
       s\<lparr>calls := Suc (calls s),
           trace := trace s @
             [Get url params, Log ERROR (''API request failed: '' @ exc_text r)]\<rparr>)"
    if "status_code r \<noteq> 400"
    using that
    by (simp add: request_failed_def error_info_of_def report_failure_def logger_error_def)
  have fails: "make_api_request env url params s = request_failed env url (Response r) ?s1"
    if "raise_for_status_raises r \<or> json_body r = None"
    using that assms by (auto simp: make_api_request_def requests_get_def)
  have "raise_for_status_raises r" if "status_code r = 400"
    using that by (simp add: raise_for_status_raises_def)
  with at_400 elsewhere fails show ?thesis by simp
qed

theorem structured_error_only_at_400_witness:
  "fst (make_api_request (example_env (invalid_token_net 400)) ''https://graph.threads.net/v1.0/me/threads'' [] start)
     = Inl (ThreadsApiError ''API request to https://graph.threads.net/v1.0/me/threads failed'') \<and>
   trace (snd (make_api_request (example_env (invalid_token_net 400)) ''https://graph.threads.net/v1.0/me/threads'' [] start))
     = [Get ''https://graph.threads.net/v1.0/me/threads'' [],
        Log ERROR ''API request failed: Invalid token (Code: 190, Subcode: 463)''] \<and>
   fst (make_api_request (example_env (invalid_token_net 401)) ''https://graph.threads.net/v1.0/me/threads'' [] start)
     = Inl (ThreadsApiError ''API request to https://graph.threads.net/v1.0/me/threads failed'') \<and>
   trace (snd (make_api_request (example_env (invalid_token_net 401)) ''https://graph.threads.net/v1.0/me/threads'' [] start))
     = [Get ''https://graph.threads.net/v1.0/me/threads'' [],
        Log ERROR ''API request failed: HTTPError'']"
proof -
  let ?url = "''https://graph.threads.net/v1.0/me/threads''"
  let ?r = "\<lambda>code. \<lparr>status_code = code, json_body = Some invalid_token_body, exc_text = ''HTTPError''\<rparr>"
  have g: "http_get (example_env (invalid_token_net code)) (calls start) ?url [] = Response (?r code)"
    for code
    by (simp add: example_env_def invalid_token_net_def failed_response_def)
  from structured_error_only_at_400 [OF g [of 400]] structured_error_only_at_400 [OF g [of 401]]
  show ?thesis
    by (simp add: raise_for_status_raises_def start_def)
qed



text \<open>
  C9. The claim: a result of \<^verbatim>\<open>get_post_views\<close> that is not \<^verbatim>\<open>None\<close> is a non-negative
  integer. The function checks nothing about the value: it returns what the body holds
  at \<^verbatim>\<open>data[0].values[0].value\<close>, here the integer -5.
\<close>

theorem get_post_views_negative_count:
  "fst (get_post_views (example_env (constant_net (views_body (JInt (- 5))))) (JStr ''p1'')
          ''token'' ''konomi_bura'' start) = Inr (JInt (- 5)) \<and>
   JInt (- 5) \<noteq> JNull \<and>
   \<not> is_view_count (JInt (- 5))"
proof -
  have "fst (get_post_views (example_env (constant_net (views_body (JInt (- 5))))) (JStr ''p1'')
          ''token'' ''konomi_bura'' start) = Inr (JInt (- 5))"
    by code_simp
  then show ?thesis by simp
qed

text \<open>
  C9 as amended. A result of \<^verbatim>\<open>get_post_views\<close> that is not \<^verbatim>\<open>None\<close> is the value
  found at \<^verbatim>\<open>data[0].values[0].value\<close> in the JSON body of a response whose status
  passed \<^verbatim>\<open>raise_for_status()\<close>, unchanged and unchecked: it is a non-negative integer
  exactly when the API sent one.
\<close>

theorem get_post_views_returns_api_value:
  assumes "fst (get_post_views env media_id access_token username s) = Inr v"
    and "v \<noteq> JNull"
  shows "\<exists>r data.
           http_get env (calls s) (insights_url env media_id) (views_params access_token)
             = Response r \<and>
           \<not> raise_for_status_raises r \<and> json_body r = Some data \<and> views_of data = Inr v"
proof -
  let ?s1 = "logger_info (''Fetching views for post '' @ py_str env media_id @ '' (User: ''
                    @ quoted username @ '')'') s"
  obtain x s2 where
    m: "make_api_request env (insights_url env media_id) (views_params access_token) ?s1 = (x, s2)"
    by (cases "make_api_request env (insights_url env media_id) (views_params access_token) ?s1")
  show ?thesis
  proof (cases x)
    case (Inl e)
    with m assms show ?thesis
      by (simp add: get_post_views_def get_post_views_try_def Let_def split: if_splits)
  next
    case (Inr data)
    with m assms have "views_of data = Inr v"
      by (cases "views_of data")
        (simp_all add: get_post_views_def get_post_views_try_def Let_def split: if_splits)
    moreover from make_api_request_returns [of env _ _ ?s1 data s2] m Inr
    obtain r where
      "http_get env (calls s) (insights_url env media_id) (views_params access_token) = Response r"
      "\<not> raise_for_status_raises r" "json_body r = Some data"
      by (auto simp: calls_simps)
    ultimately show ?thesis by blast
  qed
qed

theorem get_post_views_returns_api_value_witness:
  "fst (get_post_views (example_env (constant_net (views_body (JInt 300)))) (JStr ''p1'')
          ''token'' ''konomi_bura'' start) = Inr (JInt 300) \<and>
   is_view_count (JInt 300) \<and>
   (\<exists>r data.
      http_get (example_env (constant_net (views_body (JInt 300)))) (calls start)
        (insights_url (example_env (constant_net (views_body (JInt 300)))) (JStr ''p1''))
        (views_params ''token'') = Response r \<and>
      \<not> raise_for_status_raises r \<and> json_body r = Some data \<and> views_of data = Inr (JInt 300))"
proof -
  have a: "fst (get_post_views (example_env (constant_net (views_body (JInt 300)))) (JStr ''p1'')
          ''token'' ''konomi_bura'' start) = Inr (JInt 300)"
    by code_simp
  have b: "JInt 300 \<noteq> JNull" by simp
  from get_post_views_returns_api_value [OF a b] a show ?thesis by simp
qed

text \<open>
  C10. The \<^verbatim>\<open>username\<close> argument reaches log messages only: two runs in the same
  environment that differ in nothing but the name return the same value, or raise the
  same exception.
\<close>

theorem username_only_logged:
  "fst (get_average_impressions env access_token days username s) =
   fst (get_average_impressions env access_token days username' s)"
  using get_average_impressions_try_fst
          [of "announce username days s" "announce username' days s" env access_token days
              username username']
  by (simp add: get_average_impressions_is_try calls_announce)

theorem username_only_logged_witness:
  "fst (get_average_impressions (example_env three_posts_net) ''token'' 7 ''konomi_bura'' start) =
   fst (get_average_impressions (example_env three_posts_net) ''token'' 7 ''Unknown'' start) \<and>
   fst (get_average_impressions (example_env three_posts_net) ''token'' 7 ''Unknown'' start) =
     Inr (Some 200)"
proof -
  have "fst (get_average_impressions (example_env three_posts_net) ''token'' 7 ''Unknown'' start) =
     Inr (Some 200)"
    by code_simp
  with username_only_logged
         [of "example_env three_posts_net" "''token''" 7 "''konomi_bura''" start "''Unknown''"]
  show ?thesis by simp
qed

end
